theory Spec2Isabelle
  imports Main "HOL-Library.Product_Lexorder"
begin

section \<open>muttlib.gcd: the attribute helper mixin and the time range configuration\<close>

text \<open>
  A shallow embedding of \<^verbatim>\<open>src/muttlib/gcd.py\<close>. A Python object is a record of its
  instance attributes; an attribute that \<^verbatim>\<open>hasattr\<close> would not find is \<open>None\<close>.
  The attribute \<^verbatim>\<open>_x\<close> of the source is the field \<open>u_x\<close> here (an Isabelle name
  cannot start with an underscore). A method takes \<open>self\<close> first and returns the
  object as it has left it; a \<^verbatim>\<open>raise\<close> is the \<open>Inl\<close> of a sum.
\<close>

subsection \<open>Naive datetimes\<close>

record datetime =
  year :: int
  month :: int
  day :: int
  hour :: int
  minute :: int
  second :: int
  microsecond :: int

text \<open>\<^verbatim>\<open>datetime(y, mo, d, h, mi, s, us)\<close>, for writing concrete dates.\<close>

abbreviation DT :: "int \<Rightarrow> int \<Rightarrow> int \<Rightarrow> int \<Rightarrow> int \<Rightarrow> int \<Rightarrow> int \<Rightarrow> datetime" where
  "DT y mo d h mi s us \<equiv>
     \<lparr>year = y, month = mo, day = d, hour = h, minute = mi, second = s, microsecond = us\<rparr>"

subsection \<open>Exceptions\<close>

text \<open>
  The messages of the source are f-strings. A message is kept as the list of its parts:
  the literal text, and the values formatted into the holes.
\<close>

datatype fpart = Lit string | DateVal datetime | StrVal string | ListVal "string list"

datatype error =
    ValueError "fpart list"
  | KeyError string
  | AttributeError string

subsection \<open>Comparing datetimes, replacing the hour\<close>

text \<open>
  \<^verbatim>\<open>a <= b\<close> on naive datetimes compares the tuples
  (year, month, day, hour, minute, second, microsecond) lexicographically.
\<close>

definition dt_tuple :: "datetime \<Rightarrow> int \<times> int \<times> int \<times> int \<times> int \<times> int \<times> int" where
  "dt_tuple d = (year d, month d, day d, hour d, minute d, second d, microsecond d)"

definition dt_le :: "datetime \<Rightarrow> datetime \<Rightarrow> bool" where
  "dt_le a b \<longleftrightarrow> dt_tuple a \<le> dt_tuple b"

text \<open>
  \<^verbatim>\<open>ed.replace(hour=end_hour)\<close>: a new datetime with the hour field replaced and the
  others kept; the constructor behind it raises ValueError unless the hour is in 0..23.
\<close>

definition replace_hour :: "datetime \<Rightarrow> int \<Rightarrow> error + datetime" where
  "replace_hour d h =
     (if 0 \<le> h \<and> h \<le> 23 then Inr (d\<lparr>hour := h\<rparr>)
      else Inl (ValueError [Lit ''hour must be in 0..23'']))"

subsection \<open>AttributeHelperMixin\<close>

record 'v AttributeHelperMixin =
  u_artifacts :: "string list option"
  u_metrics :: "(string \<rightharpoonup> 'v) option"

text \<open>An object of the class straight after construction: no instance attribute yet.\<close>

definition AttributeHelperMixin_new :: "'v AttributeHelperMixin" where
  "AttributeHelperMixin_new = \<lparr>u_artifacts = None, u_metrics = None\<rparr>"

text \<open>
  \<^verbatim>\<open>_get_init(self, name, val)\<close>, on the slot of the attribute \<open>name\<close>: the slot is
  set to \<open>val\<close> only when the attribute is absent, and \<open>val\<close> is what is returned
  (the argument, not the attribute).
\<close>

definition get_init :: "'a option \<Rightarrow> 'a \<Rightarrow> 'a option \<times> 'a" where
  "get_init slot val = (case slot of None \<Rightarrow> (Some val, val) | Some old \<Rightarrow> (Some old, val))"

text \<open>
  \<^verbatim>\<open>_get_init_dict\<close> and \<^verbatim>\<open>_get_init_list\<close> are called with one name each,
  \<^verbatim>\<open>'_metrics'\<close> and \<^verbatim>\<open>'_artifacts'\<close>; every call builds a new empty container.
\<close>

definition get_init_dict ::
  "('v, 'z) AttributeHelperMixin_scheme \<Rightarrow> ('v, 'z) AttributeHelperMixin_scheme \<times> (string \<rightharpoonup> 'v)" where
  "get_init_dict self =
     (case get_init (u_metrics self) Map.empty of (slot, val) \<Rightarrow> (self\<lparr>u_metrics := slot\<rparr>, val))"

definition get_init_list ::
  "('v, 'z) AttributeHelperMixin_scheme \<Rightarrow> ('v, 'z) AttributeHelperMixin_scheme \<times> string list" where
  "get_init_list self =
     (case get_init (u_artifacts self) [] of (slot, val) \<Rightarrow> (self\<lparr>u_artifacts := slot\<rparr>, val))"

text \<open>Reading \<^verbatim>\<open>self._artifacts\<close> or \<^verbatim>\<open>self._metrics\<close> raises AttributeError when absent.\<close>

definition getattr_artifacts :: "('v, 'z) AttributeHelperMixin_scheme \<Rightarrow> error + string list" where
  "getattr_artifacts self =
     (case u_artifacts self of None \<Rightarrow> Inl (AttributeError ''_artifacts'') | Some xs \<Rightarrow> Inr xs)"

definition getattr_metrics :: "('v, 'z) AttributeHelperMixin_scheme \<Rightarrow> error + (string \<rightharpoonup> 'v)" where
  "getattr_metrics self =
     (case u_metrics self of None \<Rightarrow> Inl (AttributeError ''_metrics'') | Some m \<Rightarrow> Inr m)"

definition log_artifact ::
  "('v, 'z) AttributeHelperMixin_scheme \<Rightarrow> string \<Rightarrow> error + ('v, 'z) AttributeHelperMixin_scheme" where
  "log_artifact self path =
     (case get_init_list self of (self1, _) \<Rightarrow>
        (case getattr_artifacts self1 of
           Inl e \<Rightarrow> Inl e
         | Inr xs \<Rightarrow> Inr (self1\<lparr>u_artifacts := Some (xs @ [path])\<rparr>)))"

definition get_artifacts ::
  "('v, 'z) AttributeHelperMixin_scheme \<Rightarrow> error + (string list \<times> ('v, 'z) AttributeHelperMixin_scheme)" where
  "get_artifacts self =
     (case get_init_list self of (self1, _) \<Rightarrow>
        (case getattr_artifacts self1 of
           Inl e \<Rightarrow> Inl e
         | Inr xs \<Rightarrow> Inr (xs, self1)))"

text \<open>\<^verbatim>\<open>self._metrics.update(d)\<close>: the keys of \<open>d\<close> overwrite, the others stay.\<close>

definition log_metrics ::
  "('v, 'z) AttributeHelperMixin_scheme \<Rightarrow> (string \<rightharpoonup> 'v) \<Rightarrow> error + ('v, 'z) AttributeHelperMixin_scheme" where
  "log_metrics self d =
     (case get_init_dict self of (self1, _) \<Rightarrow>
        (case getattr_metrics self1 of
           Inl e \<Rightarrow> Inl e
         | Inr m \<Rightarrow> Inr (self1\<lparr>u_metrics := Some (m ++ d)\<rparr>)))"

definition log_metric ::
  "('v, 'z) AttributeHelperMixin_scheme \<Rightarrow> string \<Rightarrow> 'v \<Rightarrow> error + ('v, 'z) AttributeHelperMixin_scheme" where
  "log_metric self k v = log_metrics self [k \<mapsto> v]"

definition get_metrics ::
  "('v, 'z) AttributeHelperMixin_scheme \<Rightarrow> error + ((string \<rightharpoonup> 'v) \<times> ('v, 'z) AttributeHelperMixin_scheme)" where
  "get_metrics self =
     (case get_init_dict self of (self1, _) \<Rightarrow>
        (case getattr_metrics self1 of
           Inl e \<Rightarrow> Inl e
         | Inr m \<Rightarrow> Inr (m, self1)))"

text \<open>
  A caller's sequence of calls on one object: each call works on the object the call
  before has left, and the first call that raises ends the sequence.
\<close>

fun call_each :: "('s \<Rightarrow> 'a \<Rightarrow> error + 's) \<Rightarrow> 's \<Rightarrow> 'a list \<Rightarrow> error + 's" where
  "call_each f self [] = Inr self"
| "call_each f self (x # xs) =
     (case f self x of Inl e \<Rightarrow> Inl e | Inr self1 \<Rightarrow> call_each f self1 xs)"

text \<open>The five public operations of the mixin, as a caller may invoke them.\<close>

datatype 'v mixin_op =
    Log_metric string 'v
  | Log_metrics "string \<rightharpoonup> 'v"
  | Log_artifact string
  | Get_metrics
  | Get_artifacts

fun mixin_call ::
  "('v, 'z) AttributeHelperMixin_scheme \<Rightarrow> 'v mixin_op \<Rightarrow> error + ('v, 'z) AttributeHelperMixin_scheme" where
  "mixin_call self (Log_metric k v) = log_metric self k v"
| "mixin_call self (Log_metrics d) = log_metrics self d"
| "mixin_call self (Log_artifact path) = log_artifact self path"
| "mixin_call self Get_metrics =
     (case get_metrics self of Inl e \<Rightarrow> Inl e | Inr (_, self1) \<Rightarrow> Inr self1)"
| "mixin_call self Get_artifacts =
     (case get_artifacts self of Inl e \<Rightarrow> Inl e | Inr (_, self1) \<Rightarrow> Inr self1)"

subsection \<open>TimeRangeConfiguration\<close>

definition HOURLY_TIME_GRANULARITY :: string where
  "HOURLY_TIME_GRANULARITY = ''H''"

definition DAILY_TIME_GRANULARITY :: string where
  "DAILY_TIME_GRANULARITY = ''D''"

definition WEEKLY_TIME_GRANULARITY :: string where
  "WEEKLY_TIME_GRANULARITY = ''W''"

definition MONTHLY_TIME_GRANULARITY :: string where
  "MONTHLY_TIME_GRANULARITY = ''M''"

text \<open>The class dictionary, in the order it is written; its keys are distinct.\<close>

definition TIME_GRANULARITY_NAME_MAP :: "(string \<times> string) list" where
  "TIME_GRANULARITY_NAME_MAP =
     [(HOURLY_TIME_GRANULARITY, ''hourly''),
      (DAILY_TIME_GRANULARITY, ''daily''),
      (WEEKLY_TIME_GRANULARITY, ''weekly''),
      (MONTHLY_TIME_GRANULARITY, ''monthly'')]"

definition TIME_GRANULARITIES :: "string list" where
  "TIME_GRANULARITIES = map fst TIME_GRANULARITY_NAME_MAP"

text \<open>\<^verbatim>\<open>TIME_GRANULARITY_NAME_MAP[key]\<close>: a key the dictionary lacks raises KeyError.\<close>

definition name_map_getitem :: "string \<Rightarrow> error + string" where
  "name_map_getitem key =
     (case map_of TIME_GRANULARITY_NAME_MAP key of
        None \<Rightarrow> Inl (KeyError key)
      | Some name \<Rightarrow> Inr name)"

record 'v TimeRangeConfiguration = "'v AttributeHelperMixin" +
  u_start_date :: datetime
  u_end_date :: datetime
  u_future_date :: datetime
  u_forecast_train_window :: int
  u_forecast_future_window :: int
  u_time_granularity :: string
  u_time_granularity_name :: string

definition validate_construction :: "'v TimeRangeConfiguration \<Rightarrow> error + unit" where
  "validate_construction self =
     (if \<not> dt_le (u_start_date self) (u_end_date self) then
        Inl (ValueError [Lit ''Bad dates passed. Start:'', DateVal (u_start_date self),
                         Lit '', end:'', DateVal (u_end_date self), Lit ''.''])
      else if \<not> dt_le (u_end_date self) (u_future_date self) then
        Inl (ValueError [Lit ''Bad dates passed. End:'', DateVal (u_end_date self),
                         Lit '', future:'', DateVal (u_future_date self), Lit ''.''])
      else if u_time_granularity self \<notin> set TIME_GRANULARITIES then
        Inl (ValueError [Lit ''Bad time granularity passed:'', StrVal (u_time_granularity self),
                         Lit '', Possible values are: '', ListVal TIME_GRANULARITIES,
                         Lit ''\<newline>''])
      else Inr ())"

text \<open>
  \<^verbatim>\<open>__init__\<close>. The function \<^verbatim>\<open>create_forecaster_dates\<close> of \<^verbatim>\<open>muttlib.utils\<close> is
  imported, and is the parameter \<open>create_forecaster_dates\<close> here: it returns a triple
  of datetimes or raises. The steps follow the source's order: the derived dates, the
  hour of the derived end date replaced, the attributes, the display name looked up in
  the dictionary, the validation last. An exception leaves the caller without an object.
\<close>

definition TimeRangeConfiguration_init ::
  "(datetime \<Rightarrow> int \<Rightarrow> int \<Rightarrow> error + (datetime \<times> datetime \<times> datetime)) \<Rightarrow>
   datetime \<Rightarrow> int \<Rightarrow> int \<Rightarrow> string \<Rightarrow> int \<Rightarrow> error + 'v TimeRangeConfiguration" where
  "TimeRangeConfiguration_init create_forecaster_dates end_date forecast_train_window
       forecast_future_window time_granularity end_hour =
     (case create_forecaster_dates end_date forecast_train_window forecast_future_window of
        Inl e \<Rightarrow> Inl e
      | Inr (sd, ed, fd) \<Rightarrow>
          (case replace_hour ed end_hour of
             Inl e \<Rightarrow> Inl e
           | Inr ed1 \<Rightarrow>
               (case name_map_getitem time_granularity of
                  Inl e \<Rightarrow> Inl e
                | Inr name \<Rightarrow>
                    (let self = \<lparr>u_artifacts = None, u_metrics = None,
                                 u_start_date = sd, u_end_date = ed1, u_future_date = fd,
                                 u_forecast_train_window = forecast_train_window,
                                 u_forecast_future_window = forecast_future_window,
                                 u_time_granularity = time_granularity,
                                 u_time_granularity_name = name\<rparr>
                     in (case validate_construction self of
                           Inl e \<Rightarrow> Inl e
                         | Inr _ \<Rightarrow> Inr self)))))"

text \<open>The read-only properties and the granularity predicates.\<close>

definition forecast_future_window :: "'v TimeRangeConfiguration \<Rightarrow> int" where
  "forecast_future_window self = u_forecast_future_window self"

definition forecast_train_window :: "'v TimeRangeConfiguration \<Rightarrow> int" where
  "forecast_train_window self = u_forecast_train_window self"

definition start_date :: "'v TimeRangeConfiguration \<Rightarrow> datetime" where
  "start_date self = u_start_date self"

definition end_date :: "'v TimeRangeConfiguration \<Rightarrow> datetime" where
  "end_date self = u_end_date self"

definition future_date :: "'v TimeRangeConfiguration \<Rightarrow> datetime" where
  "future_date self = u_future_date self"

definition time_granularity :: "'v TimeRangeConfiguration \<Rightarrow> string" where
  "time_granularity self = u_time_granularity self"

definition time_granularity_name :: "'v TimeRangeConfiguration \<Rightarrow> string" where
  "time_granularity_name self = u_time_granularity_name self"

definition is_hourly :: "'v TimeRangeConfiguration \<Rightarrow> bool" where
  "is_hourly self \<longleftrightarrow> time_granularity self = HOURLY_TIME_GRANULARITY"

definition is_daily :: "'v TimeRangeConfiguration \<Rightarrow> bool" where
  "is_daily self \<longleftrightarrow> time_granularity self = DAILY_TIME_GRANULARITY"

definition is_weekly :: "'v TimeRangeConfiguration \<Rightarrow> bool" where
  "is_weekly self \<longleftrightarrow> time_granularity self = WEEKLY_TIME_GRANULARITY"

definition is_monthly :: "'v TimeRangeConfiguration \<Rightarrow> bool" where
  "is_monthly self \<longleftrightarrow> time_granularity self = MONTHLY_TIME_GRANULARITY"

section \<open>Properties\<close>

subsection \<open>Basic facts about the mixin\<close>

lemma get_metrics_absent:
  "u_metrics self = None \<Longrightarrow> get_metrics self = Inr (Map.empty, self\<lparr>u_metrics := Some Map.empty\<rparr>)"
  by (simp add: get_metrics_def get_init_dict_def get_init_def getattr_metrics_def)

lemma get_metrics_present:
  "u_metrics self = Some m \<Longrightarrow> get_metrics self = Inr (m, self)"
  by (simp add: get_metrics_def get_init_dict_def get_init_def getattr_metrics_def)

lemma get_artifacts_absent:
  "u_artifacts self = None \<Longrightarrow> get_artifacts self = Inr ([], self\<lparr>u_artifacts := Some []\<rparr>)"
  by (simp add: get_artifacts_def get_init_list_def get_init_def getattr_artifacts_def)

lemma get_artifacts_present:
  "u_artifacts self = Some xs \<Longrightarrow> get_artifacts self = Inr (xs, self)"
  by (simp add: get_artifacts_def get_init_list_def get_init_def getattr_artifacts_def)

lemma get_metrics_eq:
  "get_metrics self =
     Inr (case u_metrics self of None \<Rightarrow> Map.empty | Some m \<Rightarrow> m,
          self\<lparr>u_metrics := Some (case u_metrics self of None \<Rightarrow> Map.empty | Some m \<Rightarrow> m)\<rparr>)"
  by (cases "u_metrics self") (simp_all add: get_metrics_absent get_metrics_present)

lemma get_artifacts_eq:
  "get_artifacts self =
     Inr (case u_artifacts self of None \<Rightarrow> [] | Some xs \<Rightarrow> xs,
          self\<lparr>u_artifacts := Some (case u_artifacts self of None \<Rightarrow> [] | Some xs \<Rightarrow> xs)\<rparr>)"
  by (cases "u_artifacts self") (simp_all add: get_artifacts_absent get_artifacts_present)

lemma log_metrics_eq:
  "log_metrics self d =
     Inr (self\<lparr>u_metrics := Some ((case u_metrics self of None \<Rightarrow> Map.empty | Some m \<Rightarrow> m) ++ d)\<rparr>)"
  by (cases "u_metrics self")
     (simp_all add: log_metrics_def get_init_dict_def get_init_def getattr_metrics_def)

lemma log_artifact_eq:
  "log_artifact self path =
     Inr (self\<lparr>u_artifacts := Some ((case u_artifacts self of None \<Rightarrow> [] | Some xs \<Rightarrow> xs) @ [path])\<rparr>)"
  by (cases "u_artifacts self")
     (simp_all add: log_artifact_def get_init_list_def get_init_def getattr_artifacts_def)

lemma call_each_log_artifact:
  "call_each log_artifact self ps =
     Inr (if ps = [] then self
          else self\<lparr>u_artifacts := Some ((case u_artifacts self of None \<Rightarrow> [] | Some xs \<Rightarrow> xs) @ ps)\<rparr>)"
proof (induction ps arbitrary: self)
  case Nil
  show ?case by simp
next
  case (Cons p ps)
  define self1 where
    "self1 = self\<lparr>u_artifacts := Some ((case u_artifacts self of None \<Rightarrow> [] | Some xs \<Rightarrow> xs) @ [p])\<rparr>"
  have step: "log_artifact self p = Inr self1"
    unfolding self1_def by (rule log_artifact_eq)
  have "call_each log_artifact self (p # ps) = call_each log_artifact self1 ps"
    by (simp only: call_each.simps step sum.case)
  also have "\<dots> = Inr (if ps = [] then self1
          else self1\<lparr>u_artifacts := Some ((case u_artifacts self1 of None \<Rightarrow> [] | Some xs \<Rightarrow> xs) @ ps)\<rparr>)"
    by (rule Cons.IH)
  finally show ?case by (simp add: self1_def)
qed

text \<open>
  C8: on an object that has never been logged to (neither attribute exists yet),
  \<^verbatim>\<open>get_metrics()\<close> returns the empty mapping and \<^verbatim>\<open>get_artifacts()\<close> the empty
  sequence; both calls return (\<open>Inr\<close>), neither raises.
\<close>

theorem C8_untouched_bag_is_empty:
  assumes "u_metrics self = None" and "u_artifacts self = None"
  shows "get_metrics self = Inr (Map.empty, self\<lparr>u_metrics := Some Map.empty\<rparr>)
       \<and> get_artifacts self = Inr ([], self\<lparr>u_artifacts := Some []\<rparr>)"
  using assms by (simp add: get_metrics_absent get_artifacts_absent)

theorem C8_untouched_bag_is_empty_witness:
  "u_metrics (AttributeHelperMixin_new :: int AttributeHelperMixin) = None
   \<and> u_artifacts (AttributeHelperMixin_new :: int AttributeHelperMixin) = None
   \<and> (get_metrics (AttributeHelperMixin_new :: int AttributeHelperMixin)
        :: error + ((string \<rightharpoonup> int) \<times> int AttributeHelperMixin))
       = Inr (Map.empty, \<lparr>u_artifacts = None, u_metrics = Some Map.empty\<rparr>)
   \<and> (get_artifacts (AttributeHelperMixin_new :: int AttributeHelperMixin)
        :: error + (string list \<times> int AttributeHelperMixin))
       = Inr ([], \<lparr>u_artifacts = Some [], u_metrics = None\<rparr>)"
  using C8_untouched_bag_is_empty [of "AttributeHelperMixin_new :: int AttributeHelperMixin"]
  by (simp add: AttributeHelperMixin_new_def)

subsection \<open>Artifacts\<close>

text \<open>
  C7: after any sequence \<open>ps\<close> of \<^verbatim>\<open>log_artifact\<close> calls, \<^verbatim>\<open>get_artifacts()\<close>
  returns what it returned before the calls followed by the logged paths, in the order
  of the calls and with every duplicate kept; no call raises. On an object without
  artifacts (a new one) that is exactly \<open>ps\<close>, and \<^verbatim>\<open>log_artifact('x')\<close> then
  \<^verbatim>\<open>log_artifact('y')\<close> gives \<^verbatim>\<open>['x', 'y']\<close>.
\<close>

theorem C7_artifacts_in_insertion_order:
  "(\<exists>xs0 self0 self1.
        get_artifacts self = Inr (xs0, self0)
      \<and> call_each log_artifact self ps = Inr self1
      \<and> get_artifacts self1 = Inr (xs0 @ ps, self1\<lparr>u_artifacts := Some (xs0 @ ps)\<rparr>))
   \<and> (\<exists>self1.
        call_each log_artifact (self\<lparr>u_artifacts := None\<rparr>) ps = Inr self1
      \<and> get_artifacts self1 = Inr (ps, self1\<lparr>u_artifacts := Some ps\<rparr>))
   \<and> (\<exists>self1 self2.
        log_artifact AttributeHelperMixin_new ''x'' = Inr self1
      \<and> log_artifact self1 ''y'' = Inr self2
      \<and> get_artifacts self2 = Inr ([''x'', ''y''], self2))"
proof (intro conjI)
  show "\<exists>xs0 self0 self1.
        get_artifacts self = Inr (xs0, self0)
      \<and> call_each log_artifact self ps = Inr self1
      \<and> get_artifacts self1 = Inr (xs0 @ ps, self1\<lparr>u_artifacts := Some (xs0 @ ps)\<rparr>)"
    unfolding get_artifacts_eq call_each_log_artifact
    by (cases "u_artifacts self"; cases ps) simp_all
  show "\<exists>self1.
        call_each log_artifact (self\<lparr>u_artifacts := None\<rparr>) ps = Inr self1
      \<and> get_artifacts self1 = Inr (ps, self1\<lparr>u_artifacts := Some ps\<rparr>)"
    unfolding get_artifacts_eq call_each_log_artifact
    by (cases ps) simp_all
  show "\<exists>self1 self2.
        log_artifact AttributeHelperMixin_new ''x'' = Inr self1
      \<and> log_artifact self1 ''y'' = Inr self2
      \<and> get_artifacts self2 = Inr ([''x'', ''y''], self2)"
    unfolding get_artifacts_eq log_artifact_eq
    by (simp add: AttributeHelperMixin_new_def)
qed

subsection \<open>Metrics\<close>

text \<open>
  C6: \<^verbatim>\<open>log_metric(k, v1)\<close> then \<^verbatim>\<open>log_metric(k, v2)\<close> leaves \<^verbatim>\<open>get_metrics()\<close>
  with \<open>v2\<close> at \<open>k\<close> and every other key as before (the last write wins, nothing
  accumulates); \<^verbatim>\<open>log_metrics(d)\<close> leaves the former mapping overwritten by \<open>d\<close>:
  a key of \<open>d\<close> has the value \<open>d\<close> gives it, every other key keeps its value. On a
  new object, \<^verbatim>\<open>log_metric('a', 1)\<close> then \<^verbatim>\<open>log_metric('a', 2)\<close> gives \<^verbatim>\<open>{'a': 2}\<close>.
  No call raises.
\<close>

theorem C6_metrics_last_write_wins:
  "(\<exists>m0 self0 self1 self2 self3.
        get_metrics self = Inr (m0, self0)
      \<and> log_metric self k v1 = Inr self1
      \<and> log_metric self1 k v2 = Inr self2
      \<and> get_metrics self2 = Inr (m0(k \<mapsto> v2), self2)
      \<and> log_metrics self d = Inr self3
      \<and> get_metrics self3 = Inr (m0 ++ d, self3)
      \<and> (\<forall>key. (m0 ++ d) key = (case d key of None \<Rightarrow> m0 key | Some v \<Rightarrow> Some v)))
   \<and> (\<exists>self1 self2.
        log_metric AttributeHelperMixin_new ''a'' (1::int) = Inr self1
      \<and> log_metric self1 ''a'' 2 = Inr self2
      \<and> get_metrics self2 = Inr ([''a'' \<mapsto> 2], self2))"
proof (intro conjI)
  show "\<exists>m0 self0 self1 self2 self3.
        get_metrics self = Inr (m0, self0)
      \<and> log_metric self k v1 = Inr self1
      \<and> log_metric self1 k v2 = Inr self2
      \<and> get_metrics self2 = Inr (m0(k \<mapsto> v2), self2)
      \<and> log_metrics self d = Inr self3
      \<and> get_metrics self3 = Inr (m0 ++ d, self3)
      \<and> (\<forall>key. (m0 ++ d) key = (case d key of None \<Rightarrow> m0 key | Some v \<Rightarrow> Some v))"
  proof -
    define m0 where "m0 = (case u_metrics self of None \<Rightarrow> Map.empty | Some m \<Rightarrow> m)"
    have g0: "get_metrics self = Inr (m0, self\<lparr>u_metrics := Some m0\<rparr>)"
      unfolding m0_def by (rule get_metrics_eq)
    have l1: "log_metric self k v1 = Inr (self\<lparr>u_metrics := Some (m0(k \<mapsto> v1))\<rparr>)"
      unfolding m0_def log_metric_def log_metrics_eq by simp
    have l2: "log_metric (self\<lparr>u_metrics := Some (m0(k \<mapsto> v1))\<rparr>) k v2
                = Inr (self\<lparr>u_metrics := Some (m0(k \<mapsto> v2))\<rparr>)"
      unfolding log_metric_def log_metrics_eq by simp
    have g2: "get_metrics (self\<lparr>u_metrics := Some (m0(k \<mapsto> v2))\<rparr>)
                = Inr (m0(k \<mapsto> v2), self\<lparr>u_metrics := Some (m0(k \<mapsto> v2))\<rparr>)"
      by (simp add: get_metrics_present)
    have l3: "log_metrics self d = Inr (self\<lparr>u_metrics := Some (m0 ++ d)\<rparr>)"
      unfolding m0_def by (rule log_metrics_eq)
    have g3: "get_metrics (self\<lparr>u_metrics := Some (m0 ++ d)\<rparr>)
                = Inr (m0 ++ d, self\<lparr>u_metrics := Some (m0 ++ d)\<rparr>)"
      by (simp add: get_metrics_present)
    have keys: "\<forall>key. (m0 ++ d) key = (case d key of None \<Rightarrow> m0 key | Some v \<Rightarrow> Some v)"
      by (simp add: map_add_def)
    from g0 l1 l2 g2 l3 g3 keys show ?thesis by blast
  qed
  show "\<exists>self1 self2.
        log_metric AttributeHelperMixin_new ''a'' (1::int) = Inr self1
      \<and> log_metric self1 ''a'' 2 = Inr self2
      \<and> get_metrics self2 = Inr ([''a'' \<mapsto> 2], self2)"
    unfolding log_metric_def get_metrics_eq log_metrics_eq
    by (simp add: AttributeHelperMixin_new_def)
qed

subsection \<open>Sequences of mixin calls\<close>

lemma mixin_call_eq:
  "\<exists>a m. mixin_call self opn = Inr (self\<lparr>u_artifacts := a, u_metrics := m\<rparr>)"
proof (cases opn)
  case (Log_metric k v)
  have "mixin_call self opn = Inr (self\<lparr>u_artifacts := u_artifacts self,
      u_metrics := Some ((case u_metrics self of None \<Rightarrow> Map.empty | Some m \<Rightarrow> m) ++ [k \<mapsto> v])\<rparr>)"
    by (simp add: Log_metric log_metric_def log_metrics_eq)
  then show ?thesis by blast
next
  case (Log_metrics d)
  have "mixin_call self opn = Inr (self\<lparr>u_artifacts := u_artifacts self,
      u_metrics := Some ((case u_metrics self of None \<Rightarrow> Map.empty | Some m \<Rightarrow> m) ++ d)\<rparr>)"
    by (simp add: Log_metrics log_metrics_eq)
  then show ?thesis by blast
next
  case (Log_artifact p)
  have "mixin_call self opn = Inr (self\<lparr>u_artifacts :=
        Some ((case u_artifacts self of None \<Rightarrow> [] | Some xs \<Rightarrow> xs) @ [p]),
      u_metrics := u_metrics self\<rparr>)"
    by (simp add: Log_artifact log_artifact_eq)
  then show ?thesis by blast
next
  case Get_metrics
  have "mixin_call self opn = Inr (self\<lparr>u_artifacts := u_artifacts self,
      u_metrics := Some (case u_metrics self of None \<Rightarrow> Map.empty | Some m \<Rightarrow> m)\<rparr>)"
    by (simp add: Get_metrics get_metrics_eq)
  then show ?thesis by blast
next
  case Get_artifacts
  have "mixin_call self opn = Inr (self\<lparr>u_artifacts :=
        Some (case u_artifacts self of None \<Rightarrow> [] | Some xs \<Rightarrow> xs),
      u_metrics := u_metrics self\<rparr>)"
    by (simp add: Get_artifacts get_artifacts_eq)
  then show ?thesis by blast
qed

lemma call_each_mixin_call:
  "\<exists>a m. call_each mixin_call self ops = Inr (self\<lparr>u_artifacts := a, u_metrics := m\<rparr>)"
proof (induction ops arbitrary: self)
  case Nil
  have "call_each mixin_call self [] = Inr (self\<lparr>u_artifacts := u_artifacts self, u_metrics := u_metrics self\<rparr>)"
    by simp
  then show ?case by blast
next
  case (Cons x ops)
  obtain a m where step: "mixin_call self x = Inr (self\<lparr>u_artifacts := a, u_metrics := m\<rparr>)"
    using mixin_call_eq by blast
  obtain a' m' where rest:
    "call_each mixin_call (self\<lparr>u_artifacts := a, u_metrics := m\<rparr>) ops
       = Inr (self\<lparr>u_artifacts := a, u_metrics := m\<rparr>\<lparr>u_artifacts := a', u_metrics := m'\<rparr>)"
    using Cons.IH by blast
  have "call_each mixin_call self (x # ops) = Inr (self\<lparr>u_artifacts := a', u_metrics := m'\<rparr>)"
    by (simp only: call_each.simps step sum.case rest) simp
  then show ?case by blast
qed

lemma call_each_getters:
  "\<exists>self1. call_each mixin_call self (map (\<lambda>b. if b then Get_metrics else Get_artifacts) bs) = Inr self1
     \<and> (case u_metrics self1 of None \<Rightarrow> Map.empty | Some m \<Rightarrow> m)
         = (case u_metrics self of None \<Rightarrow> Map.empty | Some m \<Rightarrow> m)
     \<and> (case u_artifacts self1 of None \<Rightarrow> [] | Some xs \<Rightarrow> xs)
         = (case u_artifacts self of None \<Rightarrow> [] | Some xs \<Rightarrow> xs)"
proof (induction bs arbitrary: self)
  case Nil
  show ?case by simp
next
  case (Cons b bs)
  show ?case
  proof (cases b)
    case True
    define s where "s = self\<lparr>u_metrics := Some (case u_metrics self of None \<Rightarrow> Map.empty | Some m \<Rightarrow> m)\<rparr>"
    have step: "mixin_call self Get_metrics = Inr s"
      by (simp add: get_metrics_eq s_def)
    obtain self1 where r: "call_each mixin_call s (map (\<lambda>b. if b then Get_metrics else Get_artifacts) bs) = Inr self1"
      and m: "(case u_metrics self1 of None \<Rightarrow> Map.empty | Some m \<Rightarrow> m)
         = (case u_metrics s of None \<Rightarrow> Map.empty | Some m \<Rightarrow> m)"
      and a: "(case u_artifacts self1 of None \<Rightarrow> [] | Some xs \<Rightarrow> xs)
         = (case u_artifacts s of None \<Rightarrow> [] | Some xs \<Rightarrow> xs)"
      using Cons.IH [of s] by blast
    have "call_each mixin_call self (map (\<lambda>b. if b then Get_metrics else Get_artifacts) (b # bs)) = Inr self1"
      using True by (simp only: list.map if_True call_each.simps step sum.case r)
    moreover from m have "(case u_metrics self1 of None \<Rightarrow> Map.empty | Some m \<Rightarrow> m)
         = (case u_metrics self of None \<Rightarrow> Map.empty | Some m \<Rightarrow> m)"
      by (simp add: s_def)
    moreover from a have "(case u_artifacts self1 of None \<Rightarrow> [] | Some xs \<Rightarrow> xs)
         = (case u_artifacts self of None \<Rightarrow> [] | Some xs \<Rightarrow> xs)"
      by (simp add: s_def)
    ultimately show ?thesis by blast
  next
    case False
    define s where "s = self\<lparr>u_artifacts := Some (case u_artifacts self of None \<Rightarrow> [] | Some xs \<Rightarrow> xs)\<rparr>"
    have step: "mixin_call self Get_artifacts = Inr s"
      by (simp add: get_artifacts_eq s_def)
    obtain self1 where r: "call_each mixin_call s (map (\<lambda>b. if b then Get_metrics else Get_artifacts) bs) = Inr self1"
      and m: "(case u_metrics self1 of None \<Rightarrow> Map.empty | Some m \<Rightarrow> m)
         = (case u_metrics s of None \<Rightarrow> Map.empty | Some m \<Rightarrow> m)"
      and a: "(case u_artifacts self1 of None \<Rightarrow> [] | Some xs \<Rightarrow> xs)
         = (case u_artifacts s of None \<Rightarrow> [] | Some xs \<Rightarrow> xs)"
      using Cons.IH [of s] by blast
    have "call_each mixin_call self (map (\<lambda>b. if b then Get_metrics else Get_artifacts) (b # bs)) = Inr self1"
      using False by (simp only: list.map if_False call_each.simps step sum.case r)
    moreover from m have "(case u_metrics self1 of None \<Rightarrow> Map.empty | Some m \<Rightarrow> m)
         = (case u_metrics self of None \<Rightarrow> Map.empty | Some m \<Rightarrow> m)"
      by (simp add: s_def)
    moreover from a have "(case u_artifacts self1 of None \<Rightarrow> [] | Some xs \<Rightarrow> xs)
         = (case u_artifacts self of None \<Rightarrow> [] | Some xs \<Rightarrow> xs)"
      by (simp add: s_def)
    ultimately show ?thesis by blast
  qed
qed

text \<open>
  C9: a second \<^verbatim>\<open>get_metrics()\<close> (\<^verbatim>\<open>get_artifacts()\<close>) returns what the first
  returned and changes nothing; so does a getter after any sequence of getter calls
  (written as a list of booleans, true for \<^verbatim>\<open>get_metrics\<close>); and a getter after a
  log returns the logged content and leaves the object as the log left it: the
  container is not set back to empty.
\<close>

theorem C9_getters_are_idempotent:
  "(\<exists>m self1. get_metrics self = Inr (m, self1) \<and> get_metrics self1 = Inr (m, self1))
   \<and> (\<exists>xs self1. get_artifacts self = Inr (xs, self1) \<and> get_artifacts self1 = Inr (xs, self1))
   \<and> (\<exists>m xs self0 self0' self1 self2 self3.
        get_metrics self = Inr (m, self0) \<and> get_artifacts self = Inr (xs, self0')
      \<and> call_each mixin_call self (map (\<lambda>b. if b then Get_metrics else Get_artifacts) bs) = Inr self1
      \<and> get_metrics self1 = Inr (m, self2) \<and> get_artifacts self1 = Inr (xs, self3))
   \<and> (\<exists>m self0 self1.
        get_metrics self = Inr (m, self0)
      \<and> log_metrics self d = Inr self1 \<and> get_metrics self1 = Inr (m ++ d, self1))
   \<and> (\<exists>xs self0 self1.
        get_artifacts self = Inr (xs, self0)
      \<and> log_artifact self path = Inr self1 \<and> get_artifacts self1 = Inr (xs @ [path], self1))"
proof (intro conjI)
  show "\<exists>m self1. get_metrics self = Inr (m, self1) \<and> get_metrics self1 = Inr (m, self1)"
    unfolding get_metrics_eq by simp
  show "\<exists>xs self1. get_artifacts self = Inr (xs, self1) \<and> get_artifacts self1 = Inr (xs, self1)"
    unfolding get_artifacts_eq by simp
  show "\<exists>m xs self0 self0' self1 self2 self3.
        get_metrics self = Inr (m, self0) \<and> get_artifacts self = Inr (xs, self0')
      \<and> call_each mixin_call self (map (\<lambda>b. if b then Get_metrics else Get_artifacts) bs) = Inr self1
      \<and> get_metrics self1 = Inr (m, self2) \<and> get_artifacts self1 = Inr (xs, self3)"
  proof -
    obtain self1 where r: "call_each mixin_call self (map (\<lambda>b. if b then Get_metrics else Get_artifacts) bs) = Inr self1"
      and m: "(case u_metrics self1 of None \<Rightarrow> Map.empty | Some m \<Rightarrow> m)
         = (case u_metrics self of None \<Rightarrow> Map.empty | Some m \<Rightarrow> m)"
      and a: "(case u_artifacts self1 of None \<Rightarrow> [] | Some xs \<Rightarrow> xs)
         = (case u_artifacts self of None \<Rightarrow> [] | Some xs \<Rightarrow> xs)"
      using call_each_getters [of self bs] by blast
    show ?thesis
      using m a by (simp add: get_metrics_eq get_artifacts_eq r)
  qed
  show "\<exists>m self0 self1.
        get_metrics self = Inr (m, self0)
      \<and> log_metrics self d = Inr self1 \<and> get_metrics self1 = Inr (m ++ d, self1)"
    unfolding get_metrics_eq log_metrics_eq by simp
  show "\<exists>xs self0 self1.
        get_artifacts self = Inr (xs, self0)
      \<and> log_artifact self path = Inr self1 \<and> get_artifacts self1 = Inr (xs @ [path], self1)"
    unfolding get_artifacts_eq log_artifact_eq by simp
qed

subsection \<open>Construction of a TimeRangeConfiguration\<close>

lemma granularities_eq: "TIME_GRANULARITIES = [''H'', ''D'', ''W'', ''M'']"
  by (simp add: TIME_GRANULARITIES_def TIME_GRANULARITY_NAME_MAP_def
      HOURLY_TIME_GRANULARITY_def DAILY_TIME_GRANULARITY_def
      WEEKLY_TIME_GRANULARITY_def MONTHLY_TIME_GRANULARITY_def)

lemma name_map_getitem_unknown:
  "g \<notin> set TIME_GRANULARITIES \<Longrightarrow> name_map_getitem g = Inl (KeyError g)"
proof -
  assume "g \<notin> set TIME_GRANULARITIES"
  then have "map_of TIME_GRANULARITY_NAME_MAP g = None"
    by (simp add: TIME_GRANULARITIES_def map_of_eq_None_iff)
  then show ?thesis by (simp add: name_map_getitem_def)
qed

lemma name_map_getitem_known:
  "name_map_getitem g = Inr name \<Longrightarrow> g \<in> set TIME_GRANULARITIES"
  by (cases "g \<in> set TIME_GRANULARITIES") (simp_all add: name_map_getitem_unknown)

lemma name_map_getitem_total:
  "g \<in> set TIME_GRANULARITIES \<Longrightarrow> \<exists>name. name_map_getitem g = Inr name"
  by (auto simp: name_map_getitem_def TIME_GRANULARITIES_def map_of_eq_None_iff
      split: option.splits)

lemma init_Inr_iff:
  "TimeRangeConfiguration_init cfd e tw fw g h = Inr obj \<longleftrightarrow>
     (\<exists>sd ed fd name.
        cfd e tw fw = Inr (sd, ed, fd) \<and> 0 \<le> h \<and> h \<le> 23
      \<and> name_map_getitem g = Inr name
      \<and> dt_le sd (ed\<lparr>hour := h\<rparr>) \<and> dt_le (ed\<lparr>hour := h\<rparr>) fd
      \<and> obj = \<lparr>u_artifacts = None, u_metrics = None,
                u_start_date = sd, u_end_date = ed\<lparr>hour := h\<rparr>, u_future_date = fd,
                u_forecast_train_window = tw, u_forecast_future_window = fw,
                u_time_granularity = g, u_time_granularity_name = name\<rparr>)"
  by (auto simp: TimeRangeConfiguration_init_def Let_def replace_hour_def validate_construction_def
      dest: name_map_getitem_known split: sum.splits if_splits prod.splits)

lemma init_unknown_granularity:
  "g \<notin> set TIME_GRANULARITIES \<Longrightarrow> TimeRangeConfiguration_init cfd e tw fw g h \<noteq> Inr obj"
  unfolding init_Inr_iff using name_map_getitem_known by blast

lemma init_unknown_granularity_KeyError:
  assumes "g \<notin> set TIME_GRANULARITIES" "cfd e tw fw = Inr (sd, ed, fd)" "0 \<le> h" "h \<le> 23"
  shows "TimeRangeConfiguration_init cfd e tw fw g h = Inl (KeyError g)"
  using assms
  by (simp add: TimeRangeConfiguration_init_def Let_def replace_hour_def name_map_getitem_unknown)

lemma init_granularity_check_unreachable:
  "cfd e tw fw = Inr t \<Longrightarrow>
   TimeRangeConfiguration_init cfd e tw fw g h \<noteq>
     Inl (ValueError [Lit ''Bad time granularity passed:'', StrVal g,
                      Lit '', Possible values are: '', ListVal TIME_GRANULARITIES,
                      Lit ''\<newline>''])"
  by (cases "g \<in> set TIME_GRANULARITIES")
     (auto simp: TimeRangeConfiguration_init_def Let_def replace_hour_def
        validate_construction_def name_map_getitem_unknown
        dest: name_map_getitem_total split: sum.splits if_splits prod.splits)

text \<open>
  The two date checks of \<^verbatim>\<open>_validate_construction\<close> are reached only with a code of
  the dictionary; then each raises the ValueError that names the two dates compared.
\<close>

lemma init_start_after_end:
  assumes "cfd e tw fw = Inr (sd, ed, fd)" and "0 \<le> h" and "h \<le> 23"
    and "g \<in> set TIME_GRANULARITIES" and "\<not> dt_le sd (ed\<lparr>hour := h\<rparr>)"
  shows "TimeRangeConfiguration_init cfd e tw fw g h =
           Inl (ValueError [Lit ''Bad dates passed. Start:'', DateVal sd,
                            Lit '', end:'', DateVal (ed\<lparr>hour := h\<rparr>), Lit ''.''])"
proof -
  from assms(4) obtain name where "name_map_getitem g = Inr name"
    using name_map_getitem_total by blast
  with assms show ?thesis
    by (simp add: TimeRangeConfiguration_init_def Let_def replace_hour_def
        validate_construction_def)
qed

lemma init_end_after_future:
  assumes "cfd e tw fw = Inr (sd, ed, fd)" and "0 \<le> h" and "h \<le> 23"
    and "g \<in> set TIME_GRANULARITIES" and "dt_le sd (ed\<lparr>hour := h\<rparr>)"
    and "\<not> dt_le (ed\<lparr>hour := h\<rparr>) fd"
  shows "TimeRangeConfiguration_init cfd e tw fw g h =
           Inl (ValueError [Lit ''Bad dates passed. End:'', DateVal (ed\<lparr>hour := h\<rparr>),
                            Lit '', future:'', DateVal fd, Lit ''.''])"
proof -
  from assms(4) obtain name where "name_map_getitem g = Inr name"
    using name_map_getitem_total by blast
  with assms show ?thesis
    by (simp add: TimeRangeConfiguration_init_def Let_def replace_hour_def
        validate_construction_def)
qed

text \<open>A constructed object has neither \<^verbatim>\<open>_artifacts\<close> nor \<^verbatim>\<open>_metrics\<close> yet.\<close>

lemma init_attributes_absent:
  "TimeRangeConfiguration_init cfd e tw fw g h = Inr obj \<Longrightarrow>
     u_artifacts obj = None \<and> u_metrics obj = None"
  unfolding init_Inr_iff by auto

text \<open>
  C1, evaluated: a granularity code outside the dictionary, here \<^verbatim>\<open>'X'\<close> with the
  dates of the module's docstring. The constructor raises, but the exception is the
  KeyError of the dictionary lookup, which comes before the validation; the ValueError
  that \<^verbatim>\<open>_validate_construction\<close> has for this case is never reached
  (\<open>init_granularity_check_unreachable\<close>).
\<close>

theorem C1_unknown_granularity_raises_KeyError:
  "TimeRangeConfiguration_init
     (\<lambda>e tw fw. Inr (DT 2015 7 2 0 0 0 0, e, DT 2020 6 30 0 0 0 0))
     (DT 2019 7 1 0 0 0 0) 1460 365 ''X'' 0
   = Inl (KeyError ''X'')"
  by (simp add: TimeRangeConfiguration_init_def Let_def replace_hour_def name_map_getitem_def
      TIME_GRANULARITY_NAME_MAP_def
      HOURLY_TIME_GRANULARITY_def DAILY_TIME_GRANULARITY_def
      WEEKLY_TIME_GRANULARITY_def MONTHLY_TIME_GRANULARITY_def)

text \<open>
  C2 as stated fails: the hour of the derived end date is replaced before the
  validation, so a derived triple that is ordered need not stay ordered. Here the
  deriver returns its argument three times (start = end = future, an ordered triple),
  the end date is 2019-07-01 10:00 and both windows are 0: the end becomes
  2019-07-01 00:00, earlier than the start, and the validation raises.
\<close>

theorem C2_ordered_triple_rejected_counterexample:
  "dt_le (DT 2019 7 1 10 0 0 0) (DT 2019 7 1 10 0 0 0)
   \<and> ''D'' \<in> set TIME_GRANULARITIES
   \<and> TimeRangeConfiguration_init (\<lambda>e tw fw. Inr (e, e, e)) (DT 2019 7 1 10 0 0 0) 0 0 ''D'' 0
     = Inl (ValueError [Lit ''Bad dates passed. Start:'', DateVal (DT 2019 7 1 10 0 0 0),
                        Lit '', end:'', DateVal (DT 2019 7 1 0 0 0 0), Lit ''.''])"
  by (simp add: TimeRangeConfiguration_init_def Let_def replace_hour_def name_map_getitem_def
      TIME_GRANULARITY_NAME_MAP_def validate_construction_def dt_le_def dt_tuple_def
      granularities_eq
      HOURLY_TIME_GRANULARITY_def DAILY_TIME_GRANULARITY_def
      WEEKLY_TIME_GRANULARITY_def MONTHLY_TIME_GRANULARITY_def)

text \<open>
  C2, amended: for non-negative windows and a granularity of the enumerated set, with
  \<^verbatim>\<open>end_hour\<close> at its default 0, construction succeeds and the object satisfies
  start_date <= end_date <= future_date, provided the derived triple is ordered once
  the hour of its end date is set to 0.
\<close>

theorem C2_construction_succeeds_when_ordered_after_override:
  assumes "0 \<le> tw" and "0 \<le> fw" and "g \<in> set TIME_GRANULARITIES"
    and "cfd e tw fw = Inr (sd, ed, fd)"
    and "dt_le sd (ed\<lparr>hour := 0\<rparr>)" and "dt_le (ed\<lparr>hour := 0\<rparr>) fd"
  shows "\<exists>obj. TimeRangeConfiguration_init cfd e tw fw g 0 = Inr obj
            \<and> dt_le (start_date obj) (end_date obj) \<and> dt_le (end_date obj) (future_date obj)"
proof -
  from assms(3) obtain name where "name_map_getitem g = Inr name"
    using name_map_getitem_total by blast
  with assms show ?thesis
    by (simp add: init_Inr_iff start_date_def end_date_def future_date_def)
qed


theorem C2_construction_succeeds_when_ordered_after_override_witness:
  "(0::int) \<le> 1460 \<and> (0::int) \<le> 365 \<and> ''M'' \<in> set TIME_GRANULARITIES
   \<and> dt_le (DT 2015 7 2 0 0 0 0) ((DT 2019 7 1 0 0 0 0)\<lparr>hour := 0\<rparr>)
   \<and> dt_le ((DT 2019 7 1 0 0 0 0)\<lparr>hour := 0\<rparr>) (DT 2020 6 30 0 0 0 0)
   \<and> (\<exists>obj :: int TimeRangeConfiguration.
        TimeRangeConfiguration_init
          (\<lambda>e tw fw. Inr (DT 2015 7 2 0 0 0 0, e, DT 2020 6 30 0 0 0 0))
          (DT 2019 7 1 0 0 0 0) 1460 365 ''M'' 0 = Inr obj
      \<and> dt_le (start_date obj) (end_date obj) \<and> dt_le (end_date obj) (future_date obj))"
proof -
  have g: "''M'' \<in> set TIME_GRANULARITIES"
    by (simp add: granularities_eq)
  have a: "dt_le (DT 2015 7 2 0 0 0 0) ((DT 2019 7 1 0 0 0 0)\<lparr>hour := 0\<rparr>)"
    by (simp add: dt_le_def dt_tuple_def)
  have b: "dt_le ((DT 2019 7 1 0 0 0 0)\<lparr>hour := 0\<rparr>) (DT 2020 6 30 0 0 0 0)"
    by (simp add: dt_le_def dt_tuple_def)
  show ?thesis
    using g a b
      C2_construction_succeeds_when_ordered_after_override
        [of 1460 365 "''M''"
            "\<lambda>e tw fw. Inr (DT 2015 7 2 0 0 0 0, e, DT 2020 6 30 0 0 0 0)"
            "DT 2019 7 1 0 0 0 0" "DT 2015 7 2 0 0 0 0" "DT 2019 7 1 0 0 0 0"
            "DT 2020 6 30 0 0 0 0"]
    by simp
qed

text \<open>
  C3, evaluated where both invariants fail: the deriver returns its argument three
  times, the end date is 2019-07-01 10:00 (so the end, with its hour replaced by 0,
  is before the start) and the granularity code is \<^verbatim>\<open>'Y'\<close>. The constructor raises
  the KeyError of the dictionary lookup: not a ValueError, and with no word on the dates.
\<close>

theorem C3_invalid_input_raises_KeyError:
  "\<not> dt_le (DT 2019 7 1 10 0 0 0) ((DT 2019 7 1 10 0 0 0)\<lparr>hour := 0\<rparr>)
   \<and> ''Y'' \<notin> set TIME_GRANULARITIES
   \<and> TimeRangeConfiguration_init (\<lambda>e tw fw. Inr (e, e, e)) (DT 2019 7 1 10 0 0 0) 0 0 ''Y'' 0
     = Inl (KeyError ''Y'')"
  by (simp add: TimeRangeConfiguration_init_def Let_def replace_hour_def name_map_getitem_def
      TIME_GRANULARITY_NAME_MAP_def dt_le_def dt_tuple_def granularities_eq
      HOURLY_TIME_GRANULARITY_def DAILY_TIME_GRANULARITY_def
      WEEKLY_TIME_GRANULARITY_def MONTHLY_TIME_GRANULARITY_def)

subsection \<open>The constructed object\<close>

text \<open>
  C4: when construction with \<^verbatim>\<open>end_hour = h\<close> succeeds, the deriver has returned a
  triple (sd, ed, fd); \<^verbatim>\<open>start_date\<close> is sd and \<^verbatim>\<open>future_date\<close> is fd, unchanged,
  and \<^verbatim>\<open>end_date\<close> is ed with its hour replaced by \<open>h\<close>: its hour is \<open>h\<close> whatever
  the hour of ed was, and its minute, second and microsecond are those of ed.
\<close>

theorem C4_end_hour_replaces_only_the_hour:
  assumes "TimeRangeConfiguration_init cfd e tw fw g h = Inr obj"
  shows "\<exists>sd ed fd. cfd e tw fw = Inr (sd, ed, fd)
       \<and> start_date obj = sd \<and> future_date obj = fd
       \<and> end_date obj = ed\<lparr>hour := h\<rparr>
       \<and> hour (end_date obj) = h
       \<and> minute (end_date obj) = minute ed
       \<and> second (end_date obj) = second ed
       \<and> microsecond (end_date obj) = microsecond ed"
  using assms unfolding init_Inr_iff
  by (auto simp: start_date_def end_date_def future_date_def)


theorem C4_end_hour_replaces_only_the_hour_witness:
  "TimeRangeConfiguration_init
      (\<lambda>e tw fw. Inr (DT 2015 7 2 0 0 0 0, DT 2019 7 1 13 45 30 123, DT 2020 6 30 0 0 0 0))
      (DT 2019 7 1 13 45 30 123) 1460 365 ''M'' 6
    = Inr (\<lparr>u_artifacts = None, u_metrics = None,
           u_start_date = DT 2015 7 2 0 0 0 0, u_end_date = DT 2019 7 1 6 45 30 123,
           u_future_date = DT 2020 6 30 0 0 0 0,
           u_forecast_train_window = 1460, u_forecast_future_window = 365,
           u_time_granularity = ''M'', u_time_granularity_name = ''monthly''\<rparr>
            :: int TimeRangeConfiguration)
   \<and> (\<exists>sd ed fd.
          (Inr (DT 2015 7 2 0 0 0 0, DT 2019 7 1 13 45 30 123, DT 2020 6 30 0 0 0 0) :: error + _)
            = Inr (sd, ed, fd)
        \<and> sd = DT 2015 7 2 0 0 0 0 \<and> fd = DT 2020 6 30 0 0 0 0
        \<and> hour ed = 13
        \<and> DT 2019 7 1 6 45 30 123 = ed\<lparr>hour := 6\<rparr>
        \<and> minute ed = 45 \<and> second ed = 30 \<and> microsecond ed = 123)"
proof -
  have c: "TimeRangeConfiguration_init
      (\<lambda>e tw fw. Inr (DT 2015 7 2 0 0 0 0, DT 2019 7 1 13 45 30 123, DT 2020 6 30 0 0 0 0))
      (DT 2019 7 1 13 45 30 123) 1460 365 ''M'' 6
    = Inr (\<lparr>u_artifacts = None, u_metrics = None,
           u_start_date = DT 2015 7 2 0 0 0 0, u_end_date = DT 2019 7 1 6 45 30 123,
           u_future_date = DT 2020 6 30 0 0 0 0,
           u_forecast_train_window = 1460, u_forecast_future_window = 365,
           u_time_granularity = ''M'', u_time_granularity_name = ''monthly''\<rparr>
            :: int TimeRangeConfiguration)"
    by (simp add: TimeRangeConfiguration_init_def Let_def replace_hour_def name_map_getitem_def
        TIME_GRANULARITY_NAME_MAP_def validate_construction_def dt_le_def dt_tuple_def
        granularities_eq
        HOURLY_TIME_GRANULARITY_def DAILY_TIME_GRANULARITY_def
        WEEKLY_TIME_GRANULARITY_def MONTHLY_TIME_GRANULARITY_def)
  show ?thesis
    using c C4_end_hour_replaces_only_the_hour [OF c]
    by (simp add: start_date_def end_date_def future_date_def)
qed

text \<open>
  C5: on a constructed object \<^verbatim>\<open>time_granularity\<close> is the code passed in, each of the
  four predicates is true exactly when that code is its own, and exactly one of the
  four is true.
\<close>

theorem C5_exactly_one_granularity_predicate:
  assumes "TimeRangeConfiguration_init cfd e tw fw g h = Inr obj"
  shows "time_granularity obj = g
       \<and> (is_hourly obj \<longleftrightarrow> g = ''H'') \<and> (is_daily obj \<longleftrightarrow> g = ''D'')
       \<and> (is_weekly obj \<longleftrightarrow> g = ''W'') \<and> (is_monthly obj \<longleftrightarrow> g = ''M'')
       \<and> length (filter (\<lambda>b. b) [is_hourly obj, is_daily obj, is_weekly obj, is_monthly obj]) = 1"
proof -
  from assms obtain name where n: "name_map_getitem g = Inr name" and t: "u_time_granularity obj = g"
    unfolding init_Inr_iff by auto
  from n have "g \<in> set TIME_GRANULARITIES" by (rule name_map_getitem_known)
  then have "g = ''H'' \<or> g = ''D'' \<or> g = ''W'' \<or> g = ''M''"
    by (simp add: granularities_eq)
  with t show ?thesis
    by (auto simp: time_granularity_def is_hourly_def is_daily_def is_weekly_def is_monthly_def
        HOURLY_TIME_GRANULARITY_def DAILY_TIME_GRANULARITY_def
        WEEKLY_TIME_GRANULARITY_def MONTHLY_TIME_GRANULARITY_def)
qed


theorem C5_exactly_one_granularity_predicate_witness:
  "TimeRangeConfiguration_init
      (\<lambda>e tw fw. Inr (DT 2015 7 2 0 0 0 0, e, DT 2020 6 30 0 0 0 0))
      (DT 2019 7 1 0 0 0 0) 1460 365 ''M'' 0
    = Inr (\<lparr>u_artifacts = None, u_metrics = None,
           u_start_date = DT 2015 7 2 0 0 0 0, u_end_date = DT 2019 7 1 0 0 0 0,
           u_future_date = DT 2020 6 30 0 0 0 0,
           u_forecast_train_window = 1460, u_forecast_future_window = 365,
           u_time_granularity = ''M'', u_time_granularity_name = ''monthly''\<rparr>
            :: int TimeRangeConfiguration)
   \<and> is_monthly (\<lparr>u_artifacts = None, u_metrics = None,
           u_start_date = DT 2015 7 2 0 0 0 0, u_end_date = DT 2019 7 1 0 0 0 0,
           u_future_date = DT 2020 6 30 0 0 0 0,
           u_forecast_train_window = 1460, u_forecast_future_window = 365,
           u_time_granularity = ''M'', u_time_granularity_name = ''monthly''\<rparr>
            :: int TimeRangeConfiguration)
   \<and> length (filter (\<lambda>b. b)
        [is_hourly (\<lparr>u_artifacts = None, u_metrics = None,
           u_start_date = DT 2015 7 2 0 0 0 0, u_end_date = DT 2019 7 1 0 0 0 0,
           u_future_date = DT 2020 6 30 0 0 0 0,
           u_forecast_train_window = 1460, u_forecast_future_window = 365,
           u_time_granularity = ''M'', u_time_granularity_name = ''monthly''\<rparr>
            :: int TimeRangeConfiguration),
         is_daily (\<lparr>u_artifacts = None, u_metrics = None,
           u_start_date = DT 2015 7 2 0 0 0 0, u_end_date = DT 2019 7 1 0 0 0 0,
           u_future_date = DT 2020 6 30 0 0 0 0,
           u_forecast_train_window = 1460, u_forecast_future_window = 365,
           u_time_granularity = ''M'', u_time_granularity_name = ''monthly''\<rparr>
            :: int TimeRangeConfiguration),
         is_weekly (\<lparr>u_artifacts = None, u_metrics = None,
           u_start_date = DT 2015 7 2 0 0 0 0, u_end_date = DT 2019 7 1 0 0 0 0,
           u_future_date = DT 2020 6 30 0 0 0 0,
           u_forecast_train_window = 1460, u_forecast_future_window = 365,
           u_time_granularity = ''M'', u_time_granularity_name = ''monthly''\<rparr>
            :: int TimeRangeConfiguration),
         is_monthly (\<lparr>u_artifacts = None, u_metrics = None,
           u_start_date = DT 2015 7 2 0 0 0 0, u_end_date = DT 2019 7 1 0 0 0 0,
           u_future_date = DT 2020 6 30 0 0 0 0,
           u_forecast_train_window = 1460, u_forecast_future_window = 365,
           u_time_granularity = ''M'', u_time_granularity_name = ''monthly''\<rparr>
            :: int TimeRangeConfiguration)]) = 1"
proof -
  have c: "TimeRangeConfiguration_init
      (\<lambda>e tw fw. Inr (DT 2015 7 2 0 0 0 0, e, DT 2020 6 30 0 0 0 0))
      (DT 2019 7 1 0 0 0 0) 1460 365 ''M'' 0
    = Inr (\<lparr>u_artifacts = None, u_metrics = None,
           u_start_date = DT 2015 7 2 0 0 0 0, u_end_date = DT 2019 7 1 0 0 0 0,
           u_future_date = DT 2020 6 30 0 0 0 0,
           u_forecast_train_window = 1460, u_forecast_future_window = 365,
           u_time_granularity = ''M'', u_time_granularity_name = ''monthly''\<rparr>
            :: int TimeRangeConfiguration)"
    by (simp add: TimeRangeConfiguration_init_def Let_def replace_hour_def name_map_getitem_def
        TIME_GRANULARITY_NAME_MAP_def validate_construction_def dt_le_def dt_tuple_def
        granularities_eq
        HOURLY_TIME_GRANULARITY_def DAILY_TIME_GRANULARITY_def
        WEEKLY_TIME_GRANULARITY_def MONTHLY_TIME_GRANULARITY_def)
  show ?thesis
    using c C5_exactly_one_granularity_predicate [OF c] by simp
qed

subsection \<open>Logging on a TimeRangeConfiguration\<close>

text \<open>
  C10: any sequence of mixin calls (\<^verbatim>\<open>log_metric\<close>, \<^verbatim>\<open>log_metrics\<close>,
  \<^verbatim>\<open>log_artifact\<close>, \<^verbatim>\<open>get_metrics\<close>, \<^verbatim>\<open>get_artifacts\<close>) on a
  TimeRangeConfiguration returns, and the seven properties \<^verbatim>\<open>start_date\<close>,
  \<^verbatim>\<open>end_date\<close>, \<^verbatim>\<open>future_date\<close>, \<^verbatim>\<open>forecast_train_window\<close>,
  \<^verbatim>\<open>forecast_future_window\<close>, \<^verbatim>\<open>time_granularity\<close> and
  \<^verbatim>\<open>time_granularity_name\<close> have the values they had before.
\<close>

theorem C10_logging_leaves_the_time_range_alone:
  fixes self :: "'v TimeRangeConfiguration"
  shows "\<exists>self1. call_each mixin_call self ops = Inr self1
      \<and> start_date self1 = start_date self
      \<and> end_date self1 = end_date self
      \<and> future_date self1 = future_date self
      \<and> forecast_train_window self1 = forecast_train_window self
      \<and> forecast_future_window self1 = forecast_future_window self
      \<and> time_granularity self1 = time_granularity self
      \<and> time_granularity_name self1 = time_granularity_name self"
proof -
  obtain a m where "call_each mixin_call self ops = Inr (self\<lparr>u_artifacts := a, u_metrics := m\<rparr>)"
    using call_each_mixin_call by blast
  then show ?thesis
    by (simp add: start_date_def end_date_def future_date_def forecast_train_window_def
        forecast_future_window_def time_granularity_def time_granularity_name_def)
qed

end
